theory Spec2Isabelle
  imports Complex_Main
begin

section \<open>Python values, exceptions and warnings\<close>

text \<open>
  The module \<^verbatim>\<open>pyart/map/gates_to_grid.py\<close> is embedded function by function.
  A Python exception is a value \<open>Inl e\<close> of a sum type and a normal return is \<open>Inr v\<close>.
  A call of \<^verbatim>\<open>warnings.warn\<close> is an entry of a list of warnings returned beside
  the value, also when the call ends in an exception. Floating point numbers are
  idealised as \<open>real\<close>: rounding is not modelled; the range of \<^verbatim>\<open>float32\<close> is kept where
  the masking of a quotient depends on it.
\<close>

datatype pyerror =
    ValueError string
  | KeyError string
  | IndexError string
  | AttributeError string
  | UnboundLocalError string
  | ZeroDivisionError string

datatype pywarning = DeprecationWarning string

subsection \<open>\<^verbatim>\<open>str.upper\<close>\<close>

text \<open>
  The weighting function name is a Python string, here the list of its Unicode code
  points. \<^verbatim>\<open>str.upper\<close> replaces every character by its upper-case mapping, which can be
  several characters long (U+00DF becomes \<^verbatim>\<open>SS\<close>). Below 128 the mapping sends \<^verbatim>\<open>a\<close> to
  \<^verbatim>\<open>z\<close> to \<^verbatim>\<open>A\<close> to \<^verbatim>\<open>Z\<close> and leaves every other character; from 128 on it is the table
  of the interpreter's Unicode database, a parameter of the model.
\<close>

type_synonym pystr = "nat list"

definition code_points :: "string \<Rightarrow> pystr" where
  "code_points s = map of_char s"

definition upper_point :: "(nat \<Rightarrow> pystr) \<Rightarrow> nat \<Rightarrow> pystr" where
  "upper_point table c =
     (if c < 128 then (if 97 \<le> c \<and> c \<le> 122 then [c - 32] else [c]) else table c)"

definition upper :: "(nat \<Rightarrow> pystr) \<Rightarrow> pystr \<Rightarrow> pystr" where
  "upper table s = concat (map (upper_point table) s)"

section \<open>The weighting function tag\<close>

text \<open>
  \<^verbatim>\<open>
  def _detemine_cy_weighting_func(weighting_function):
      if weighting_function.upper() == 'BARNES2':
          cy_weighting_function = 3
      elif weighting_function.upper() == 'NEAREST':
          cy_weighting_function = 2
      elif weighting_function.upper() == 'CRESSMAN':
          cy_weighting_function = 1
      elif weighting_function.upper() == 'BARNES':
          warnings.warn("Barnes weighting function is deprecated." ..., DeprecationWarning)
          cy_weighting_function = 0
      else:
          raise ValueError('unknown weighting_function')
      return cy_weighting_function
  \<close>
\<close>

definition barnes_deprecation :: pywarning where
  "barnes_deprecation = DeprecationWarning
     ''Barnes weighting function is deprecated. Please use Barnes 2 to be consistent with Pauley and Wu 1990.''"

text \<open>
  The first argument is the upper-case table for the code points from 128 on. The
  warning is issued on the \<^verbatim>\<open>BARNES\<close> branch only, so no warning accompanies the exception.
\<close>

definition detemine_cy_weighting_func ::
  "(nat \<Rightarrow> pystr) \<Rightarrow> pystr \<Rightarrow> pyerror + (int \<times> pywarning list)" where
  "detemine_cy_weighting_func table weighting_function =
     (if upper table weighting_function = code_points ''BARNES2'' then Inr (3, [])
      else if upper table weighting_function = code_points ''NEAREST'' then Inr (2, [])
      else if upper table weighting_function = code_points ''CRESSMAN'' then Inr (1, [])
      else if upper table weighting_function = code_points ''BARNES''
        then Inr (0, [barnes_deprecation])
      else Inl (ValueError ''unknown weighting_function''))"

section \<open>Radars, gate filters and radius of influence objects\<close>

text \<open>
  The classes \<^verbatim>\<open>Radar\<close>, \<^verbatim>\<open>GateFilter\<close> and the \<^verbatim>\<open>RoIFunction\<close> family are
  imported by the module. Only the attributes the module reads are kept. An attribute
  such as \<^verbatim>\<open>radar.altitude\<close> is a dictionary whose \<^verbatim>\<open>'data'\<close> entry is an array;
  the record field holds that array (the dictionary \<^verbatim>\<open>radar.fields\<close> is the field
  \<open>radar_fields\<close>, an association list from field name to the field's masked data).
  A two dimensional array is the list of its rows (one row per ray). A masked array
  carries its data and its mask side by side, one pair per element.
\<close>

type_synonym marray = "(real \<times> bool) list"

record radar =
  altitude :: "real list"
  latitude :: "real list"
  longitude :: "real list"
  radar_fields :: "(string \<times> marray list) list"
  nrays :: nat
  ngates :: nat
  gate_x :: "real list list"
  gate_y :: "real list list"
  gate_altitude :: "real list list"
  gate_longitude :: "real list list"
  gate_latitude :: "real list list"

record gatefilter =
  gate_excluded :: "bool list list"

text \<open>
  The \<^verbatim>\<open>radars\<close> argument is one \<^verbatim>\<open>Radar\<close> or a sequence of them; the
  \<^verbatim>\<open>gatefilters\<close> argument is one \<^verbatim>\<open>GateFilter\<close>, \<^verbatim>\<open>False\<close>, \<^verbatim>\<open>None\<close> or a
  sequence whose entries are a \<^verbatim>\<open>GateFilter\<close>, \<^verbatim>\<open>False\<close> or \<^verbatim>\<open>None\<close>.
\<close>

datatype radars_arg = OneRadar radar | RadarSeq "radar list"

datatype gatefilter_item = AFilter gatefilter | FalseItem | NoneItem

datatype gatefilters_arg =
    OneGateFilter gatefilter
  | GateFiltersFalse
  | GateFiltersNone
  | GateFilterSeq "gatefilter_item list"

type_synonym offset = "real \<times> real \<times> real"

datatype roi_function =
    ConstantRoI real
  | DistRoI real real real "offset list"
  | DistBeamRoI real real real real "offset list"
  | MaxSpaceRoI real
  | CustomRoI nat

datatype roi_arg = RoIName string | RoIObject roi_function

section \<open>Parsing the gate filters\<close>

text \<open>
  \<^verbatim>\<open>
  def _parse_gatefilters(gatefilters, radars):
      if isinstance(gatefilters, GateFilter):
          gatefilters = (gatefilters, )
      if gatefilters is False:
          gatefilters = (False, ) * len(radars)
      if gatefilters is None:
          gatefilters = (None, ) * len(radars)
      if len(gatefilters) != len(radars):
          raise ValueError('Length of gatefilters must match length of radars')
      return gatefilters
  \<close>
\<close>

fun gatefilters_tuple :: "gatefilters_arg \<Rightarrow> radar list \<Rightarrow> gatefilter_item list" where
  "gatefilters_tuple (OneGateFilter g) radars = [AFilter g]"
| "gatefilters_tuple GateFiltersFalse radars = replicate (length radars) FalseItem"
| "gatefilters_tuple GateFiltersNone radars = replicate (length radars) NoneItem"
| "gatefilters_tuple (GateFilterSeq gs) radars = gs"

definition parse_gatefilters ::
  "gatefilters_arg \<Rightarrow> radar list \<Rightarrow> pyerror + gatefilter_item list" where
  "parse_gatefilters gatefilters radars =
     (let gs = gatefilters_tuple gatefilters radars
      in if length gs \<noteq> length radars
         then Inl (ValueError ''Length of gatefilters must match length of radars'')
         else Inr gs)"

section \<open>Determining the fields\<close>

text \<open>
  \<^verbatim>\<open>
  def _determine_fields(fields, radars):
      if fields is None:
          fields = set(radars[0].fields.keys())
          for radar in radars[1:]:
              fields = fields.intersection(radar.fields.keys())
          fields = list(fields)
      return fields
  \<close>
  A Python set is a list without repetitions here. The order in which Python
  enumerates a set is not specified; the model keeps the order of the first radar's keys.
\<close>

definition keys :: "('k \<times> 'v) list \<Rightarrow> 'k list" where
  "keys d = map fst d"

definition intersection :: "'a list \<Rightarrow> 'a list \<Rightarrow> 'a list" where
  "intersection s other = filter (\<lambda>x. x \<in> set other) s"

fun intersect_all :: "string list \<Rightarrow> radar list \<Rightarrow> string list" where
  "intersect_all fs [] = fs"
| "intersect_all fs (r # rs) = intersect_all (intersection fs (keys (radar_fields r))) rs"

fun determine_fields :: "string list option \<Rightarrow> radar list \<Rightarrow> pyerror + string list" where
  "determine_fields (Some fs) radars = Inr fs"
| "determine_fields None [] = Inl (IndexError ''tuple index out of range'')"
| "determine_fields None (r # rs) = Inr (intersect_all (remdups (keys (radar_fields r))) rs)"

section \<open>Grid parameters\<close>

text \<open>
  \<^verbatim>\<open>
  def _find_grid_params(grid_shape, grid_limits):
      nz, ny, nx = grid_shape
      zr, yr, xr = grid_limits
      z_start, z_stop = zr  (and likewise for y and x)
      if nz == 1:
          z_step = 0.
      else:
          z_step = (z_stop - z_start) / (nz - 1.)
      ...
      grid_starts = (z_start, y_start, x_start)
      grid_steps = (z_step, y_step, x_step)
      return grid_starts, grid_steps
  \<close>
  Python's float division raises \<^verbatim>\<open>ZeroDivisionError\<close> on a zero divisor, so the
  division is a partial operation of the model.
\<close>

definition truediv :: "real \<Rightarrow> real \<Rightarrow> pyerror + real" where
  "truediv a b =
     (if b = 0 then Inl (ZeroDivisionError ''float division by zero'') else Inr (a / b))"

definition axis_step :: "int \<Rightarrow> real \<Rightarrow> real \<Rightarrow> pyerror + real" where
  "axis_step n start stop =
     (if n = 1 then Inr 0 else truediv (stop - start) (real_of_int n - 1))"

type_synonym triple = "real \<times> real \<times> real"

type_synonym limits = "(real \<times> real) \<times> (real \<times> real) \<times> (real \<times> real)"

fun find_grid_params :: "int \<times> int \<times> int \<Rightarrow> limits \<Rightarrow> pyerror + (triple \<times> triple)" where
  "find_grid_params (nz, ny, nx) ((z_start, z_stop), (y_start, y_stop), (x_start, x_stop)) =
     (case axis_step nz z_start z_stop of
        Inl e \<Rightarrow> Inl e
      | Inr z_step \<Rightarrow>
     (case axis_step ny y_start y_stop of
        Inl e \<Rightarrow> Inl e
      | Inr y_step \<Rightarrow>
     (case axis_step nx x_start x_stop of
        Inl e \<Rightarrow> Inl e
      | Inr x_step \<Rightarrow>
          Inr ((z_start, y_start, x_start), (z_step, y_step, x_step)))))"

section \<open>The radius of influence object\<close>

text \<open>
  \<^verbatim>\<open>
  def _parse_roi_func(roi_func, constant_roi, z_factor, xy_factor, min_radius,
                      h_factor, nb, bsp, offsets max_az_spacing):
      if not isinstance(roi_func, RoIFunction):
          if roi_func == 'constant':
              roi_func = ConstantRoI(constant_roi)
          elif roi_func == 'dist':
              roi_func = DistRoI(z_factor, xy_factor, min_radius, offsets)
          elif roi_func == 'dist_beam':
              roi_func = DistBeamRoI(h_factor, nb, bsp, min_radius, offsets)
          elif roi_func == 'max_space':
              roi_func = MaxSpaceRoI(max_az_spacing)
          else:
              raise ValueError('unknown roi_func: %s' % roi_func)
      return roi_func
  \<close>
  The parameter list is kept as the sequence of its tokens, as the file has it: there
  is no comma between \<^verbatim>\<open>offsets\<close> and \<^verbatim>\<open>max_az_spacing\<close>. A parameter list of plain
  names is well formed when the names are separated by commas (a trailing comma is
  allowed). The function body is embedded with ten parameters, which is the reading with
  the comma in place.
\<close>

datatype token = NAME string | COMMA

definition parse_roi_func_parameters :: "token list" where
  "parse_roi_func_parameters =
     [NAME ''roi_func'', COMMA, NAME ''constant_roi'', COMMA, NAME ''z_factor'', COMMA,
      NAME ''xy_factor'', COMMA, NAME ''min_radius'', COMMA,
      NAME ''h_factor'', COMMA, NAME ''nb'', COMMA, NAME ''bsp'', COMMA,
      NAME ''offsets'', NAME ''max_az_spacing'']"

fun parameters_wellformed :: "token list \<Rightarrow> bool" where
  "parameters_wellformed [] = True"
| "parameters_wellformed [NAME n] = True"
| "parameters_wellformed (NAME n # COMMA # ts) = parameters_wellformed ts"
| "parameters_wellformed ts = False"

definition parse_roi_func ::
  "roi_arg \<Rightarrow> real \<Rightarrow> real \<Rightarrow> real \<Rightarrow> real \<Rightarrow> real \<Rightarrow> real \<Rightarrow> real
     \<Rightarrow> offset list \<Rightarrow> real \<Rightarrow> pyerror + roi_function" where
  "parse_roi_func roi_func constant_roi z_factor xy_factor min_radius h_factor nb bsp
       offsets max_az_spacing =
     (case roi_func of
        RoIObject f \<Rightarrow> Inr f
      | RoIName name \<Rightarrow>
          if name = ''constant'' then Inr (ConstantRoI constant_roi)
          else if name = ''dist'' then Inr (DistRoI z_factor xy_factor min_radius offsets)
          else if name = ''dist_beam'' then
            Inr (DistBeamRoI h_factor nb bsp min_radius offsets)
          else if name = ''max_space'' then Inr (MaxSpaceRoI max_az_spacing)
          else Inl (ValueError (''unknown roi_func: '' @ name)))"

section \<open>Scalars from arrays, the grid origin and the projection\<close>

text \<open>
  \<^verbatim>\<open>float(a)\<close> of an array succeeds exactly on an array with one element and raises
  \<^verbatim>\<open>TypeError\<close> otherwise; the module catches that error and takes \<^verbatim>\<open>np.mean(a)\<close>.
  \<^verbatim>\<open>
      if grid_origin_alt is None:
          try:
              grid_origin_alt = float(radars[0].altitude['data'])
          except TypeError:
              grid_origin_alt = np.mean(radars[0].altitude['data'])
  \<close>
\<close>

definition py_float :: "real list \<Rightarrow> real option" where
  "py_float a = (case a of [x] \<Rightarrow> Some x | _ \<Rightarrow> None)"

definition np_mean :: "real list \<Rightarrow> real" where
  "np_mean a = sum_list a / real (length a)"

definition first_radar :: "radar list \<Rightarrow> pyerror + radar" where
  "first_radar radars =
     (case radars of [] \<Rightarrow> Inl (IndexError ''tuple index out of range'') | r # _ \<Rightarrow> Inr r)"

definition find_grid_origin_alt :: "real option \<Rightarrow> radar list \<Rightarrow> pyerror + real" where
  "find_grid_origin_alt alt radars =
     (case alt of
        Some a \<Rightarrow> Inr a
      | None \<Rightarrow>
          (case first_radar radars of
             Inl e \<Rightarrow> Inl e
           | Inr r \<Rightarrow>
               (case py_float (altitude r) of
                  Some a \<Rightarrow> Inr a
                | None \<Rightarrow> Inr (np_mean (altitude r)))))"

text \<open>
  \<^verbatim>\<open>
  def _find_projparams(grid_origin, radars, grid_projection):
      if grid_origin is None:
          try:
              lat = float(radars[0].latitude['data'])
              lon = float(radars[0].longitude['data'])
          except TypeError:
              lat = np.mean(radars[0].latitude['data'])
              lon = np.mean(radars[0].longitude['data'])
          grid_origin = (lat, lon)
      grid_origin_lat, grid_origin_lon = grid_origin
      if grid_projection is None:
          grid_projection = {'proj': 'pyart_aeqd', '_include_lon_0_lat_0': True}
      projparams = grid_projection.copy()
      if projparams.pop('_include_lon_0_lat_0', False):
          projparams['lon_0'] = grid_origin_lon
          projparams['lat_0'] = grid_origin_lat
      return projparams
  \<close>
\<close>

datatype projvalue = PStr string | PNum real | PBool bool

type_synonym projparams = "string \<rightharpoonup> projvalue"

fun truthy :: "projvalue \<Rightarrow> bool" where
  "truthy (PBool b) = b"
| "truthy (PNum x) = (x \<noteq> 0)"
| "truthy (PStr s) = (s \<noteq> [])"

definition default_projection :: projparams where
  "default_projection =
     [''proj'' \<mapsto> PStr ''pyart_aeqd'', ''_include_lon_0_lat_0'' \<mapsto> PBool True]"

definition find_origin :: "(real \<times> real) option \<Rightarrow> radar list \<Rightarrow> pyerror + (real \<times> real)" where
  "find_origin origin radars =
     (case origin of
        Some given \<Rightarrow> Inr given
      | None \<Rightarrow>
          (case first_radar radars of
             Inl e \<Rightarrow> Inl e
           | Inr r \<Rightarrow>
               (case (py_float (latitude r), py_float (longitude r)) of
                  (Some lat, Some lon) \<Rightarrow> Inr (lat, lon)
                | _ \<Rightarrow> Inr (np_mean (latitude r), np_mean (longitude r)))))"

definition find_projparams ::
  "(real \<times> real) option \<Rightarrow> radar list \<Rightarrow> projparams option \<Rightarrow> pyerror + projparams" where
  "find_projparams origin radars projection =
     (case find_origin origin radars of
        Inl e \<Rightarrow> Inl e
      | Inr (grid_origin_lat, grid_origin_lon) \<Rightarrow>
          (let p = (case projection of None \<Rightarrow> default_projection | Some q \<Rightarrow> q);
               flag = (case p ''_include_lon_0_lat_0'' of None \<Rightarrow> False | Some v \<Rightarrow> truthy v);
               popped = p(''_include_lon_0_lat_0'' := None)
           in if flag
              then Inr (popped(''lon_0'' \<mapsto> PNum grid_origin_lon,
                               ''lat_0'' \<mapsto> PNum grid_origin_lat))
              else Inr popped))"

section \<open>Collaborators outside the module\<close>

text \<open>
  The projection \<^verbatim>\<open>geographic_to_cartesian\<close>, the constructors of gate filters and the
  Cython class \<^verbatim>\<open>GateToGridMapper\<close> are imported by the module and are parameters of
  the model, and so is the interpreter's upper-case table \<open>unicode_upper\<close> for the code
  points from 128 on. The projection acts point by point: it maps a longitude and a latitude to
  \<open>(x, y)\<close>. The mapper owns the two accumulation arrays; each is a list with one
  entry per field (the last axis of the source's arrays), and each entry lists the
  cells of the grid.
\<close>

record gatemapper =
  gm_shape :: "int \<times> int \<times> int"
  gm_starts :: triple
  gm_steps :: triple
  grid_sum :: "real list list"
  grid_wsum :: "real list list"

record mapper_call =
  arg_ngates :: nat
  arg_nrays :: nat
  arg_gate_z :: "real list list"
  arg_gate_y :: "real list list"
  arg_gate_x :: "real list list"
  arg_field_data :: "real list list list"
  arg_field_mask :: "bool list list list"
  arg_excluded_gates :: "bool list list"
  arg_toa :: real
  arg_roi_func :: roi_function
  arg_cy_weighting_function :: int
  arg_max_az_spacing :: real

record externals =
  geographic_to_cartesian :: "projparams \<Rightarrow> real \<Rightarrow> real \<Rightarrow> real \<times> real"
  GateFilter :: "radar \<Rightarrow> gatefilter"
  moment_based_gate_filter :: "radar \<Rightarrow> gatefilter"
  mapper_map_gates_to_grid :: "mapper_call \<Rightarrow> gatemapper \<Rightarrow> gatemapper"
  find_roi_for_grid :: "gatemapper \<Rightarrow> roi_function \<Rightarrow> real list"
  unicode_upper :: "nat \<Rightarrow> pystr"

definition project1 :: "externals \<Rightarrow> projparams \<Rightarrow> real list \<Rightarrow> real list \<Rightarrow> real list \<times> real list" where
  "project1 ext pp lon lat =
     (let xy = map2 (geographic_to_cartesian ext pp) lon lat in (map fst xy, map snd xy))"

definition project2 ::
  "externals \<Rightarrow> projparams \<Rightarrow> real list list \<Rightarrow> real list list
     \<Rightarrow> real list list \<times> real list list" where
  "project2 ext pp lon lat =
     (let xy = map2 (project1 ext pp) lon lat in (map fst xy, map snd xy))"

text \<open>
  \<^verbatim>\<open>
  def _find_offsets(radars, projparams, grid_origin_alt):
      offsets = []
      for radar in radars:
          x_disp, y_disp = geographic_to_cartesian(
              radar.longitude['data'], radar.latitude['data'], projparams)
          try:
              z_disp = float(radar.altitude['data']) - grid_origin_alt
              offsets.append((z_disp, float(y_disp), float(x_disp)))
          except TypeError:
              z_disp = np.mean(radar.altitude['data']) - grid_origin_alt
              offsets.append((z_disp, np.mean(y_disp), np.mean(x_disp)))
      return offsets
  \<close>
\<close>

definition find_offset :: "externals \<Rightarrow> projparams \<Rightarrow> real \<Rightarrow> radar \<Rightarrow> offset" where
  "find_offset ext pp alt r =
     (case project1 ext pp (longitude r) (latitude r) of
        (x_disp, y_disp) \<Rightarrow>
          (case (py_float (altitude r), py_float y_disp, py_float x_disp) of
             (Some a, Some y, Some x) \<Rightarrow> (a - alt, y, x)
           | _ \<Rightarrow> (np_mean (altitude r) - alt, np_mean y_disp, np_mean x_disp)))"

definition find_offsets :: "externals \<Rightarrow> radar list \<Rightarrow> projparams \<Rightarrow> real \<Rightarrow> offset list" where
  "find_offsets ext radars pp alt = map (find_offset ext pp alt) radars"

section \<open>The maximum azimuthal spacing\<close>

text \<open>
  \<^verbatim>\<open>
      max_space_radars = np.empty(len(radars))
      if roi_func == 'max_space':
          for radar in radars:
              gate_x = radar.gate_x['data'][:, -1]
              gate_y = radar.gate_y['data'][:, -1]
              spacing = np.sqrt(np.diff(gate_x)**2 + np.diff(gate_y)**2)
              max_space_radars.append(np.max(spacing))
          max_az_spacing = np.max(max_space_radars)
  \<close>
  \<^verbatim>\<open>np.empty\<close> returns a numpy array, and a numpy array has no attribute
  \<^verbatim>\<open>append\<close>: looking the attribute up raises \<^verbatim>\<open>AttributeError\<close>. Python evaluates
  the callee \<^verbatim>\<open>max_space_radars.append\<close> before the argument \<^verbatim>\<open>np.max(spacing)\<close>.
  The contents of \<^verbatim>\<open>np.empty(n)\<close> are not specified; the model fills it with zeros,
  and no path that returns reads them. The local variable \<^verbatim>\<open>max_az_spacing\<close> is bound
  only inside the \<^verbatim>\<open>if\<close>; a local variable is \<open>None\<close> while unbound and reading it
  then raises \<^verbatim>\<open>UnboundLocalError\<close>.
\<close>

definition np_empty :: "nat \<Rightarrow> real list" where
  "np_empty n = replicate n 0"

definition last_column :: "nat \<Rightarrow> real list list \<Rightarrow> pyerror + real list" where
  "last_column ncols a =
     (if ncols = 0 then Inl (IndexError ''index -1 is out of bounds for axis 1 with size 0'')
      else Inr (map last a))"

fun np_diff :: "real list \<Rightarrow> real list" where
  "np_diff (x # y # zs) = (y - x) # np_diff (y # zs)"
| "np_diff zs = []"

definition np_max :: "real list \<Rightarrow> pyerror + real" where
  "np_max a =
     (case a of
        [] \<Rightarrow> Inl (ValueError
                ''zero-size array to reduction operation maximum which has no identity'')
      | x # xs \<Rightarrow> Inr (fold max xs x))"

definition ndarray_append :: "real list \<Rightarrow> pyerror + (real \<Rightarrow> real list)" where
  "ndarray_append a = Inl (AttributeError ''numpy.ndarray object has no attribute append'')"

definition max_space_body :: "radar \<Rightarrow> real list \<Rightarrow> pyerror + real list" where
  "max_space_body r max_space_radars =
     (case last_column (ngates r) (gate_x r) of
        Inl e \<Rightarrow> Inl e
      | Inr gx \<Rightarrow>
     (case last_column (ngates r) (gate_y r) of
        Inl e \<Rightarrow> Inl e
      | Inr gy \<Rightarrow>
     (let spacing = map2 (\<lambda>dx dy. sqrt (dx\<^sup>2 + dy\<^sup>2)) (np_diff gx) (np_diff gy)
      in case ndarray_append max_space_radars of
           Inl e \<Rightarrow> Inl e
         | Inr method \<Rightarrow>
             (case np_max spacing of
                Inl e \<Rightarrow> Inl e
              | Inr m \<Rightarrow> Inr (method m)))))"

fun max_space_loop :: "radar list \<Rightarrow> real list \<Rightarrow> pyerror + real list" where
  "max_space_loop [] max_space_radars = Inr max_space_radars"
| "max_space_loop (r # rs) max_space_radars =
     (case max_space_body r max_space_radars of
        Inl e \<Rightarrow> Inl e
      | Inr b \<Rightarrow> max_space_loop rs b)"

definition find_max_az_spacing :: "roi_arg \<Rightarrow> radar list \<Rightarrow> pyerror + real option" where
  "find_max_az_spacing roi_func radars =
     (let max_space_radars = np_empty (length radars)
      in if roi_func = RoIName ''max_space''
         then (case max_space_loop radars max_space_radars of
                 Inl e \<Rightarrow> Inl e
               | Inr b \<Rightarrow>
                   (case np_max b of
                      Inl e \<Rightarrow> Inl e
                    | Inr m \<Rightarrow> Inr (Some m)))
         else Inr None)"

definition load_local :: "string \<Rightarrow> 'a option \<Rightarrow> pyerror + 'a" where
  "load_local name v = (case v of None \<Rightarrow> Inl (UnboundLocalError name) | Some x \<Rightarrow> Inr x)"

section \<open>Projecting the gates of each radar\<close>

text \<open>
  \<^verbatim>\<open>
          shape = (radar.nrays, radar.ngates, nfields)
          field_data = np.empty(shape, dtype='float32')
          field_mask = np.empty(shape, dtype='uint8')
          for i, field in enumerate(fields):
              fdata = radar.fields[field]['data']
              field_data[:, :, i] = np.ma.getdata(fdata)
              field_mask[:, :, i] = np.ma.getmaskarray(fdata)
  \<close>
  Indexing a dictionary with a key it does not hold raises \<^verbatim>\<open>KeyError\<close>. The two
  buffers are lists with one entry per field (their last axis); each field's data is
  taken to have the radar's shape \<^verbatim>\<open>(nrays, ngates)\<close>.
\<close>

definition getitem :: "(string \<times> 'v) list \<Rightarrow> string \<Rightarrow> pyerror + 'v" where
  "getitem d k = (case map_of d k of None \<Rightarrow> Inl (KeyError k) | Some v \<Rightarrow> Inr v)"

fun copy_fields ::
  "radar \<Rightarrow> string list \<Rightarrow> pyerror + (real list list list \<times> bool list list list)" where
  "copy_fields r [] = Inr ([], [])"
| "copy_fields r (field # rest) =
     (case getitem (radar_fields r) field of
        Inl e \<Rightarrow> Inl e
      | Inr fdata \<Rightarrow>
          (case copy_fields r rest of
             Inl e \<Rightarrow> Inl e
           | Inr (field_data, field_mask) \<Rightarrow>
               Inr (map (map fst) fdata # field_data, map (map snd) fdata # field_mask)))"

text \<open>
  \<^verbatim>\<open>
          if gatefilter is False:
              gatefilter = GateFilter(radar)  # include all gates
          elif gatefilter is None:
              gatefilter = moment_based_gate_filter(radar, **kwargs)
          excluded_gates = gatefilter.gate_excluded.astype('uint8')
          if skip_transform:
              gate_x = radar.gate_x['data']
              gate_y = radar.gate_y['data']
          else:
              gate_x, gate_y = geographic_to_cartesian(
                  radar.gate_longitude['data'], radar.gate_latitude['data'], projparams)
          gate_z = radar.gate_altitude['data'] - grid_origin_alt
          gatemapper.map_gates_to_grid(
              radar.ngates, radar.nrays, gate_z.astype('float32'),
              gate_y.astype('float32'), gate_x.astype('float32'),
              field_data, field_mask, excluded_gates,
              toa, roi_func, cy_weighting_function, max_az_spacing)
  \<close>
\<close>

fun resolve_gatefilter :: "externals \<Rightarrow> radar \<Rightarrow> gatefilter_item \<Rightarrow> gatefilter" where
  "resolve_gatefilter ext r FalseItem = GateFilter ext r"
| "resolve_gatefilter ext r NoneItem = moment_based_gate_filter ext r"
| "resolve_gatefilter ext r (AFilter g) = g"

record mapping_context =
  ctx_fields :: "string list"
  ctx_skip_transform :: bool
  ctx_projparams :: projparams
  ctx_grid_origin_alt :: real
  ctx_toa :: real
  ctx_roi_func :: roi_function
  ctx_cy_weighting_function :: int
  ctx_max_az_spacing :: real

definition map_one_radar ::
  "externals \<Rightarrow> mapping_context \<Rightarrow> radar \<Rightarrow> gatefilter_item \<Rightarrow> gatemapper
     \<Rightarrow> pyerror + gatemapper" where
  "map_one_radar ext ctx r item gm =
     (case copy_fields r (ctx_fields ctx) of
        Inl e \<Rightarrow> Inl e
      | Inr (field_data, field_mask) \<Rightarrow>
          (let excluded_gates = gate_excluded (resolve_gatefilter ext r item);
               xy = (if ctx_skip_transform ctx then (gate_x r, gate_y r)
                     else project2 ext (ctx_projparams ctx)
                            (gate_longitude r) (gate_latitude r));
               gate_z = map (map (\<lambda>a. a - ctx_grid_origin_alt ctx)) (gate_altitude r)
           in Inr (mapper_map_gates_to_grid ext
                 \<lparr>arg_ngates = ngates r, arg_nrays = nrays r, arg_gate_z = gate_z,
                  arg_gate_y = snd xy, arg_gate_x = fst xy,
                  arg_field_data = field_data, arg_field_mask = field_mask,
                  arg_excluded_gates = excluded_gates, arg_toa = ctx_toa ctx,
                  arg_roi_func = ctx_roi_func ctx,
                  arg_cy_weighting_function = ctx_cy_weighting_function ctx,
                  arg_max_az_spacing = ctx_max_az_spacing ctx\<rparr> gm)))"

fun map_radars ::
  "externals \<Rightarrow> mapping_context \<Rightarrow> (radar \<times> gatefilter_item) list \<Rightarrow> gatemapper
     \<Rightarrow> pyerror + gatemapper" where
  "map_radars ext ctx [] gm = Inr gm"
| "map_radars ext ctx ((r, item) # rest) gm =
     (case map_one_radar ext ctx r item gm of
        Inl e \<Rightarrow> Inl e
      | Inr gm' \<Rightarrow> map_radars ext ctx rest gm')"

section \<open>Creating the grid dictionary\<close>

text \<open>
  \<^verbatim>\<open>
      mweight = np.ma.masked_equal(grid_wsum, 0)
      msum = np.ma.masked_array(grid_sum, mweight.mask)
      grids = dict(
          [(f, msum[..., i] / mweight[..., i]) for i, f in enumerate(fields)])
      if map_roi:
          roi_array = np.empty(grid_shape, dtype=np.float32)
          gatemapper.find_roi_for_grid(roi_array, roi_func)
          grids['ROI'] = roi_array
      return grids
  \<close>
  The two arrays are \<^verbatim>\<open>float32\<close>. The quotient of two masked arrays is masked where
  either operand is masked, where the divisor is zero (the domain test of
  \<^verbatim>\<open>np.ma.divide\<close>, which on finite \<^verbatim>\<open>float32\<close> operands holds exactly there) and where the
  \<^verbatim>\<open>float32\<close> quotient is not finite; at a masked cell the result holds the dividend's
  data. A quotient of finite operands with a divisor other than zero is not finite when it
  rounds to an infinity, that is when its magnitude reaches the midpoint
  \<^verbatim>\<open>(2 - 2**-24) * 2**127\<close> between the largest \<^verbatim>\<open>float32\<close> and \<^verbatim>\<open>2**128\<close>.
  \<^verbatim>\<open>dict\<close> of a list of pairs keeps, for a key that occurs more than once, the value of
  its last occurrence.
\<close>

definition float32_overflows :: "real \<Rightarrow> bool" where
  "float32_overflows q = ((2 - 1 / 2 ^ 24) * 2 ^ 127 \<le> \<bar>q\<bar>)"

definition masked_equal :: "real list \<Rightarrow> real \<Rightarrow> marray" where
  "masked_equal x v = map (\<lambda>d. (d, d = v)) x"

definition masked_array :: "real list \<Rightarrow> bool list \<Rightarrow> marray" where
  "masked_array d m = zip d m"

definition ma_divide1 :: "real \<times> bool \<Rightarrow> real \<times> bool \<Rightarrow> real \<times> bool" where
  "ma_divide1 a b =
     (let m = (snd a \<or> snd b \<or> fst b = 0 \<or> float32_overflows (fst a / fst b))
      in (if m then fst a else fst a / fst b, m))"

definition ma_divide :: "marray \<Rightarrow> marray \<Rightarrow> marray" where
  "ma_divide a b = map2 ma_divide1 a b"

definition last_axis :: "'a list \<Rightarrow> nat \<Rightarrow> pyerror + 'a" where
  "last_axis a i =
     (if i < length a then Inr (a ! i) else Inl (IndexError ''index is out of bounds''))"

fun field_grids ::
  "marray list \<Rightarrow> marray list \<Rightarrow> (nat \<times> string) list \<Rightarrow> pyerror + (string \<times> marray) list" where
  "field_grids msum mweight [] = Inr []"
| "field_grids msum mweight ((i, f) # rest) =
     (case last_axis msum i of
        Inl e \<Rightarrow> Inl e
      | Inr s \<Rightarrow>
     (case last_axis mweight i of
        Inl e \<Rightarrow> Inl e
      | Inr w \<Rightarrow>
     (case field_grids msum mweight rest of
        Inl e \<Rightarrow> Inl e
      | Inr gs \<Rightarrow> Inr ((f, ma_divide s w) # gs))))"

datatype grid = MaskedGrid marray | RoIGrid "real list"

definition dict :: "('k \<times> 'v) list \<Rightarrow> ('k \<rightharpoonup> 'v)" where
  "dict kvs = map_of (rev kvs)"

definition make_grids ::
  "externals \<Rightarrow> gatemapper \<Rightarrow> roi_function \<Rightarrow> string list \<Rightarrow> bool
     \<Rightarrow> pyerror + (string \<rightharpoonup> grid)" where
  "make_grids ext gm roi fs map_roi =
     (let mweight = map (\<lambda>w. masked_equal w 0) (grid_wsum gm);
          msum = map2 (\<lambda>s w. masked_array s (map snd w)) (grid_sum gm) mweight
      in case field_grids msum mweight (enumerate 0 fs) of
           Inl e \<Rightarrow> Inl e
         | Inr gs \<Rightarrow>
             (let grids = dict (map (\<lambda>(f, g). (f, MaskedGrid g)) gs)
              in if map_roi
                 then Inr (grids(''ROI'' \<mapsto> RoIGrid (find_roi_for_grid ext gm roi)))
                 else Inr grids))"

section \<open>The mapping call\<close>

text \<open>
  \<^verbatim>\<open>
  def map_gates_to_grid(
          radars, grid_shape, grid_limits, grid_origin=None,
          grid_origin_alt=None, grid_projection=None,
          fields=None, gatefilters=False, map_roi=True,
          weighting_function='Barnes', toa=17000.0, roi_func='dist_beam',
          constant_roi=500., z_factor=0.05, xy_factor=0.02, min_radius=500.0,
          h_factor=1.0, nb=1.5, bsp=1.0, **kwargs):
      if isinstance(radars, Radar):
          radars = (radars, )
      skip_transform = False
      if len(radars) == 1 and grid_origin_alt is None and grid_origin is None:
          skip_transform = True
      ...
      gatefilters = _parse_gatefilters(gatefilters, radars)
      cy_weighting_function = _detemine_cy_weighting_func(weighting_function)
      projparams = _find_projparams(grid_origin, radars, grid_projection)
      fields = _determine_fields(fields, radars)
      grid_starts, grid_steps = _find_grid_params(grid_shape, grid_limits)
      offsets = _find_offsets(radars, projparams, grid_origin_alt)
      ...
      roi_func = _parse_roi_func(roi_func, constant_roi, z_factor, xy_factor,
                                 min_radius, h_factor, nb, bsp, offsets,
                                 max_az_spacing)
      nfields = len(fields)
      grid_sum = np.zeros(grid_shape + (nfields, ), dtype=np.float32)
      grid_wsum = np.zeros(grid_shape + (nfields, ), dtype=np.float32)
      gatemapper = GateToGridMapper(
          grid_shape, grid_starts, grid_steps, grid_sum, grid_wsum)
      for radar, gatefilter in zip(radars, gatefilters):
          ...
  \<close>
  The keyword arguments are the fields of a record, under the names of the source with
  the prefix \<open>kw_\<close>; the extra keyword arguments are passed on to
  \<^verbatim>\<open>moment_based_gate_filter\<close> only and stay inside that parameter. The call returns its
  outcome, an exception or the grid dictionary, and the warnings issued up to there.
\<close>

record kwargs =
  kw_grid_origin :: "(real \<times> real) option"
  kw_grid_origin_alt :: "real option"
  kw_grid_projection :: "projparams option"
  kw_fields :: "string list option"
  kw_gatefilters :: gatefilters_arg
  kw_map_roi :: bool
  kw_weighting_function :: pystr
  kw_toa :: real
  kw_roi_func :: roi_arg
  kw_constant_roi :: real
  kw_z_factor :: real
  kw_xy_factor :: real
  kw_min_radius :: real
  kw_h_factor :: real
  kw_nb :: real
  kw_bsp :: real

definition defaults :: kwargs where
  "defaults =
     \<lparr>kw_grid_origin = None, kw_grid_origin_alt = None, kw_grid_projection = None,
      kw_fields = None, kw_gatefilters = GateFiltersFalse, kw_map_roi = True,
      kw_weighting_function = code_points ''Barnes'', kw_toa = 17000,
      kw_roi_func = RoIName ''dist_beam'',
      kw_constant_roi = 500, kw_z_factor = 5 / 100, kw_xy_factor = 2 / 100,
      kw_min_radius = 500, kw_h_factor = 1, kw_nb = 3 / 2, kw_bsp = 1\<rparr>"

definition as_tuple :: "radars_arg \<Rightarrow> radar list" where
  "as_tuple radars = (case radars of OneRadar r \<Rightarrow> [r] | RadarSeq rs \<Rightarrow> rs)"

definition np_zeros :: "int \<times> int \<times> int \<Rightarrow> nat \<Rightarrow> pyerror + real list list" where
  "np_zeros shape nfields =
     (case shape of
        (nz, ny, nx) \<Rightarrow>
          if nz < 0 \<or> ny < 0 \<or> nx < 0
          then Inl (ValueError ''negative dimensions are not allowed'')
          else Inr (replicate nfields (replicate (nat (nz * ny * nx)) 0)))"

definition accumulate_and_finish ::
  "externals \<Rightarrow> kwargs \<Rightarrow> int \<times> int \<times> int \<Rightarrow> triple \<times> triple \<Rightarrow> mapping_context
     \<Rightarrow> radar list \<Rightarrow> gatefilter_item list \<Rightarrow> pyerror + (string \<rightharpoonup> grid)" where
  "accumulate_and_finish ext kw grid_shape params ctx radars gatefilters =
     (case np_zeros grid_shape (length (ctx_fields ctx)) of
        Inl e \<Rightarrow> Inl e
      | Inr zeros \<Rightarrow>
          (case map_radars ext ctx (zip radars gatefilters)
                  \<lparr>gm_shape = grid_shape, gm_starts = fst params, gm_steps = snd params,
                   grid_sum = zeros, grid_wsum = zeros\<rparr> of
             Inl e \<Rightarrow> Inl e
           | Inr gm \<Rightarrow>
               make_grids ext gm (ctx_roi_func ctx) (ctx_fields ctx) (kw_map_roi kw)))"

definition map_gates_to_grid ::
  "externals \<Rightarrow> radars_arg \<Rightarrow> int \<times> int \<times> int \<Rightarrow> limits \<Rightarrow> kwargs
     \<Rightarrow> (pyerror + (string \<rightharpoonup> grid)) \<times> pywarning list" where
  "map_gates_to_grid ext radars_arg grid_shape grid_limits kw =
     (let radars = as_tuple radars_arg;
          skip_transform = (length radars = 1 \<and> kw_grid_origin_alt kw = None
                              \<and> kw_grid_origin kw = None)
      in case find_grid_origin_alt (kw_grid_origin_alt kw) radars of
           Inl e \<Rightarrow> (Inl e, [])
         | Inr grid_origin_alt \<Rightarrow>
      (case parse_gatefilters (kw_gatefilters kw) radars of
           Inl e \<Rightarrow> (Inl e, [])
         | Inr gatefilters \<Rightarrow>
      (case detemine_cy_weighting_func (unicode_upper ext) (kw_weighting_function kw) of
           Inl e \<Rightarrow> (Inl e, [])
         | Inr (cy_weighting_function, warned) \<Rightarrow>
      ((case find_projparams (kw_grid_origin kw) radars (kw_grid_projection kw) of
           Inl e \<Rightarrow> Inl e
         | Inr projparams \<Rightarrow>
      (case determine_fields (kw_fields kw) radars of
           Inl e \<Rightarrow> Inl e
         | Inr fs \<Rightarrow>
      (case find_grid_params grid_shape grid_limits of
           Inl e \<Rightarrow> Inl e
         | Inr params \<Rightarrow>
      (let offsets = find_offsets ext radars projparams grid_origin_alt
       in case find_max_az_spacing (kw_roi_func kw) radars of
           Inl e \<Rightarrow> Inl e
         | Inr local_max_az_spacing \<Rightarrow>
      (case load_local ''max_az_spacing'' local_max_az_spacing of
           Inl e \<Rightarrow> Inl e
         | Inr max_az_spacing \<Rightarrow>
      (case parse_roi_func (kw_roi_func kw) (kw_constant_roi kw) (kw_z_factor kw)
              (kw_xy_factor kw) (kw_min_radius kw) (kw_h_factor kw) (kw_nb kw) (kw_bsp kw)
              offsets max_az_spacing of
           Inl e \<Rightarrow> Inl e
         | Inr roi \<Rightarrow>
         accumulate_and_finish ext kw grid_shape params
              \<lparr>ctx_fields = fs, ctx_skip_transform = skip_transform,
               ctx_projparams = projparams, ctx_grid_origin_alt = grid_origin_alt,
               ctx_toa = kw_toa kw, ctx_roi_func = roi,
               ctx_cy_weighting_function = cy_weighting_function,
               ctx_max_az_spacing = max_az_spacing\<rparr> radars gatefilters)))))),
       warned))))"

section \<open>Concrete inputs\<close>

text \<open>
  Two small radars and trivial collaborators, on which the functions above are
  evaluated; the upper-case table expands U+00DF to \<^verbatim>\<open>SS\<close> and leaves every other
  code point. The first radar has two rays of one gate and the fields \<open>refl\<close> and
  \<open>vel\<close>; the second has one ray of one gate and the field \<open>refl\<close> only.
\<close>

definition radar_two_rays :: radar where
  "radar_two_rays =
     \<lparr>altitude = [100], latitude = [40], longitude = [-100],
      radar_fields = [(''refl'', [[(10, False)], [(20, False)]]),
                      (''vel'', [[(1, False)], [(2, True)]])],
      nrays = 2, ngates = 1,
      gate_x = [[0], [3]], gate_y = [[0], [4]],
      gate_altitude = [[100], [100]],
      gate_longitude = [[-100], [-100]], gate_latitude = [[40], [40]]\<rparr>"

definition radar_one_ray :: radar where
  "radar_one_ray =
     \<lparr>altitude = [100], latitude = [40], longitude = [-100],
      radar_fields = [(''refl'', [[(10, False)]])],
      nrays = 1, ngates = 1,
      gate_x = [[0]], gate_y = [[0]],
      gate_altitude = [[100]],
      gate_longitude = [[-100]], gate_latitude = [[40]]\<rparr>"

definition include_all :: "radar \<Rightarrow> gatefilter" where
  "include_all r = \<lparr>gate_excluded = replicate (nrays r) (replicate (ngates r) False)\<rparr>"

definition plain_externals :: externals where
  "plain_externals =
     \<lparr>geographic_to_cartesian = (\<lambda>pp lon lat. (lon, lat)),
      GateFilter = include_all,
      moment_based_gate_filter = include_all,
      mapper_map_gates_to_grid = (\<lambda>call gm. gm),
      find_roi_for_grid = (\<lambda>gm roi. [500]),
      unicode_upper = (\<lambda>c. if c = 223 then [83, 83] else [c])\<rparr>"

definition unit_limits :: limits where
  "unit_limits = ((0, 0), (0, 0), (0, 0))"

section \<open>Auxiliary facts\<close>

lemmas upper_simps = upper_def upper_point_def code_points_def

lemmas call_simps = map_gates_to_grid_def as_tuple_def find_grid_origin_alt_def first_radar_def
  py_float_def np_mean_def parse_gatefilters_def detemine_cy_weighting_func_def upper_simps
  find_projparams_def find_origin_def default_projection_def keys_def intersection_def
  axis_step_def truediv_def find_offsets_def find_offset_def project1_def
  find_max_az_spacing_def np_empty_def max_space_body_def last_column_def ndarray_append_def
  np_max_def load_local_def Let_def

subsection \<open>The intersection of the field names\<close>

lemma set_intersect_all:
  "set (intersect_all fs rs) = set fs \<inter> (\<Inter>r\<in>set rs. set (keys (radar_fields r)))"
  by (induction rs arbitrary: fs) (auto simp: intersection_def)

lemma distinct_intersect_all: "distinct fs \<Longrightarrow> distinct (intersect_all fs rs)"
  by (induction rs arbitrary: fs) (auto simp: intersection_def)

subsection \<open>The maximum azimuthal spacing is never available\<close>

text \<open>
  With \<^verbatim>\<open>roi_func == 'max_space'\<close> the block that computes the spacing raises: on an empty
  tuple of radars \<^verbatim>\<open>np.max\<close> reduces an empty array, and otherwise the first pass of the
  loop looks up \<^verbatim>\<open>append\<close> on an array.
\<close>

lemma find_max_az_spacing_max_space:
  "isl (find_max_az_spacing (RoIName ''max_space'') radars)"
  by (cases radars) (auto simp: find_max_az_spacing_def np_empty_def np_max_def max_space_body_def
      last_column_def ndarray_append_def Let_def split: sum.splits)

text \<open>
  With any other \<^verbatim>\<open>roi_func\<close> the name \<^verbatim>\<open>max_az_spacing\<close> is read unbound. So the
  mapping call raises on every input: the loop over the radars and the creation of the
  grid dictionary are reached by no call.
\<close>

lemma never_returns: "isl (fst (map_gates_to_grid ext radars shape glimits kw))"
proof (cases "kw_roi_func kw = RoIName ''max_space''")
  case True
  then show ?thesis using find_max_az_spacing_max_space[of "as_tuple radars"]
    by (auto simp: map_gates_to_grid_def Let_def split: sum.splits prod.splits)
next
  case False
  then show ?thesis
    by (auto simp: map_gates_to_grid_def Let_def find_max_az_spacing_def load_local_def
        split: sum.splits prod.splits)
qed

subsection \<open>The weighting function name\<close>

text \<open>
  The name is compared in upper case. On the four names the helper returns the tags 0
  to 3, with the deprecation warning for Barnes only; on any other name it raises.
\<close>

lemma weighting_function_tags:
  "(upper table w = code_points ''BARNES'' \<longrightarrow>
      detemine_cy_weighting_func table w = Inr (0, [barnes_deprecation]))
   \<and> (upper table w = code_points ''CRESSMAN'' \<longrightarrow>
      detemine_cy_weighting_func table w = Inr (1, []))
   \<and> (upper table w = code_points ''NEAREST'' \<longrightarrow>
      detemine_cy_weighting_func table w = Inr (2, []))
   \<and> (upper table w = code_points ''BARNES2'' \<longrightarrow>
      detemine_cy_weighting_func table w = Inr (3, []))
   \<and> (upper table w \<notin> code_points ` {''BARNES2'', ''NEAREST'', ''CRESSMAN'', ''BARNES''} \<longrightarrow>
      detemine_cy_weighting_func table w = Inl (ValueError ''unknown weighting_function''))"
  by (simp add: detemine_cy_weighting_func_def code_points_def)

lemma weighting_function_sharp_s:
  "detemine_cy_weighting_func (unicode_upper plain_externals)
     (code_points ''cre'' @ [223] @ code_points ''man'') = Inr (1, [])"
  by (simp add: detemine_cy_weighting_func_def upper_simps plain_externals_def)

text \<open>
  In the mapping call the two faults that are tested before line 134 raise their
  \<^verbatim>\<open>ValueError\<close>, and the warning for Barnes is issued whatever happens afterwards.
\<close>

lemma gatefilters_fault_raises:
  "find_grid_origin_alt (kw_grid_origin_alt kw) (as_tuple ra) = Inr a \<Longrightarrow>
   length (gatefilters_tuple (kw_gatefilters kw) (as_tuple ra)) \<noteq> length (as_tuple ra) \<Longrightarrow>
   map_gates_to_grid ext ra shape glimits kw
     = (Inl (ValueError ''Length of gatefilters must match length of radars''), [])"
  by (simp add: map_gates_to_grid_def parse_gatefilters_def Let_def)

lemma weighting_fault_raises:
  "find_grid_origin_alt (kw_grid_origin_alt kw) (as_tuple ra) = Inr a \<Longrightarrow>
   length (gatefilters_tuple (kw_gatefilters kw) (as_tuple ra)) = length (as_tuple ra) \<Longrightarrow>
   upper (unicode_upper ext) (kw_weighting_function kw)
     \<notin> code_points ` {''BARNES2'', ''NEAREST'', ''CRESSMAN'', ''BARNES''} \<Longrightarrow>
   map_gates_to_grid ext ra shape glimits kw
     = (Inl (ValueError ''unknown weighting_function''), [])"
  by (simp add: map_gates_to_grid_def parse_gatefilters_def detemine_cy_weighting_func_def Let_def)

lemma barnes_call_warns:
  "find_grid_origin_alt (kw_grid_origin_alt kw) (as_tuple ra) = Inr a \<Longrightarrow>
   length (gatefilters_tuple (kw_gatefilters kw) (as_tuple ra)) = length (as_tuple ra) \<Longrightarrow>
   upper (unicode_upper ext) (kw_weighting_function kw) = code_points ''BARNES'' \<Longrightarrow>
   snd (map_gates_to_grid ext ra shape glimits kw) = [barnes_deprecation]"
  by (simp add: map_gates_to_grid_def parse_gatefilters_def detemine_cy_weighting_func_def Let_def
      code_points_def)

subsection \<open>The masked quotient\<close>

text \<open>
  A sum of 4 over a weight of \<^verbatim>\<open>2**-126\<close>, the smallest normal \<^verbatim>\<open>float32\<close>, has the quotient
  \<^verbatim>\<open>2**128\<close>, which is not a finite \<^verbatim>\<open>float32\<close>: the cell is masked and holds the sum.
\<close>

lemma ma_divide_masks_overflow:
  "ma_divide1 (4, False) (1 / 2 ^ 126, False) = (4, True)"
  by (simp add: ma_divide1_def float32_overflows_def)

section \<open>The finalised grids\<close>

text \<open>
  Claim C1 fails on the code. A call on one radar for the field \<^verbatim>\<open>refl\<close> with the
  weighting function \<^verbatim>\<open>'Barnes2'\<close> and every other argument at its default raises
  \<^verbatim>\<open>UnboundLocalError\<close> for \<^verbatim>\<open>max_az_spacing\<close> at line 134. The accumulation arrays are
  not yet created there, and the lines that divide the sum by the weight are not reached:
  no cell of any field has a finalised output.
\<close>

theorem call_raises_before_grids_are_finalised:
  "map_gates_to_grid plain_externals (OneRadar radar_two_rays) (1, 1, 1) unit_limits
       (defaults\<lparr>kw_fields := Some [''refl''], kw_weighting_function := code_points ''Barnes2''\<rparr>)
     = (Inl (UnboundLocalError ''max_az_spacing''), [])"
  by (simp add: call_simps defaults_def radar_two_rays_def plain_externals_def unit_limits_def)

section \<open>The radius of influence from the maximum spacing\<close>

text \<open>
  Claim C2 fails on the code. A call on one radar of two rays with
  \<^verbatim>\<open>roi_func='max_space'\<close> and every other argument at its default raises
  \<^verbatim>\<open>AttributeError\<close>: the per-radar maxima are collected with \<^verbatim>\<open>append\<close> on an array made
  by \<^verbatim>\<open>np.empty\<close>, which has no such method. No radius is computed. The warning of the
  default weighting function \<^verbatim>\<open>'Barnes'\<close> has been issued before.
\<close>

theorem max_space_call_raises_attribute_error:
  "map_gates_to_grid plain_externals (OneRadar radar_two_rays) (1, 1, 1) unit_limits
       (defaults\<lparr>kw_roi_func := RoIName ''max_space''\<rparr>)
     = (Inl (AttributeError ''numpy.ndarray object has no attribute append''),
        [barnes_deprecation])"
  by (simp add: call_simps defaults_def radar_two_rays_def plain_externals_def unit_limits_def)

section \<open>Configuration faults\<close>

text \<open>
  Claim C3 fails on the code. A call with the unknown name \<^verbatim>\<open>'nearest'\<close> for
  \<^verbatim>\<open>roi_func\<close> raises \<^verbatim>\<open>UnboundLocalError\<close> for \<^verbatim>\<open>max_az_spacing\<close> at line 134, and so does
  the call with the known name \<^verbatim>\<open>'constant'\<close>: the unknown name is not told apart, and the
  \<^verbatim>\<open>ValueError\<close> of \<^verbatim>\<open>_parse_roi_func\<close> is reached by no call.
\<close>

theorem unknown_roi_func_raises_unbound_local_error:
  "map_gates_to_grid plain_externals (OneRadar radar_two_rays) (1, 1, 1) unit_limits
       (defaults\<lparr>kw_roi_func := RoIName ''nearest''\<rparr>)
     = (Inl (UnboundLocalError ''max_az_spacing''), [barnes_deprecation])
   \<and> map_gates_to_grid plain_externals (OneRadar radar_two_rays) (1, 1, 1) unit_limits
       (defaults\<lparr>kw_roi_func := RoIName ''constant''\<rparr>)
     = (Inl (UnboundLocalError ''max_az_spacing''), [barnes_deprecation])"
  by (simp add: call_simps defaults_def radar_two_rays_def plain_externals_def unit_limits_def)

text \<open>
  Claim C4 fails on the code. A call on one radar of a single ray, so with no azimuthal
  spacing at all, with \<^verbatim>\<open>roi_func='max_space'\<close> raises the same \<^verbatim>\<open>AttributeError\<close> as
  every other call in that mode, from \<^verbatim>\<open>append\<close> on an array: the number of distinct
  azimuth gates is never tested and no configuration error is raised for it.
\<close>

theorem max_space_single_ray_raises_attribute_error:
  "map_gates_to_grid plain_externals (RadarSeq [radar_one_ray]) (1, 1, 1) unit_limits
       (defaults\<lparr>kw_roi_func := RoIName ''max_space''\<rparr>)
     = (Inl (AttributeError ''numpy.ndarray object has no attribute append''),
        [barnes_deprecation])"
  by (simp add: call_simps defaults_def radar_one_ray_def plain_externals_def unit_limits_def)

section \<open>A requested field that a radar does not have\<close>

text \<open>
  Claim C5 fails on the code. A call on two radars for the fields \<^verbatim>\<open>refl\<close> and \<^verbatim>\<open>vel\<close>,
  the second radar having \<^verbatim>\<open>refl\<close> only, raises \<^verbatim>\<open>UnboundLocalError\<close> for
  \<^verbatim>\<open>max_az_spacing\<close> at line 134, before the loop over the radars: the call is fatal,
  the only warning issued is the one of the default weighting function, and no radar and
  no field is mapped.
\<close>

theorem missing_field_call_raises_unbound_local_error:
  "map_gates_to_grid plain_externals (RadarSeq [radar_two_rays, radar_one_ray]) (1, 1, 1)
       unit_limits (defaults\<lparr>kw_fields := Some [''refl'', ''vel'']\<rparr>)
     = (Inl (UnboundLocalError ''max_az_spacing''), [barnes_deprecation])"
  by (simp add: call_simps defaults_def radar_two_rays_def radar_one_ray_def plain_externals_def
      unit_limits_def)

section \<open>Names read by the mapping call\<close>

text \<open>
  Claim C6 fails on the code. The parameter list of \<^verbatim>\<open>_parse_roi_func\<close> is not well
  formed: the comma between \<^verbatim>\<open>offsets\<close> and \<^verbatim>\<open>max_az_spacing\<close> is missing. And, the list
  read with that comma, a call on one radar with every keyword argument at its default, so
  with \<^verbatim>\<open>roi_func='dist_beam'\<close>, raises \<^verbatim>\<open>UnboundLocalError\<close> for \<^verbatim>\<open>max_az_spacing\<close>, which
  is assigned only when \<^verbatim>\<open>roi_func == 'max_space'\<close>. The warning of the default weighting
  function \<^verbatim>\<open>'Barnes'\<close> has been issued before.
\<close>

theorem default_call_reads_unbound_max_az_spacing:
  "\<not> parameters_wellformed parse_roi_func_parameters \<and>
   map_gates_to_grid plain_externals (OneRadar radar_two_rays) (1, 1, 1) unit_limits defaults
     = (Inl (UnboundLocalError ''max_az_spacing''), [barnes_deprecation])"
  by (simp add: parse_roi_func_parameters_def call_simps defaults_def radar_two_rays_def
      plain_externals_def unit_limits_def)

section \<open>The weighting function tag and the loop\<close>

text \<open>
  Claim C7 fails on the code. A call with the weighting function \<^verbatim>\<open>'barnes'\<close> resolves
  the name and issues the deprecation warning, and a call with \<^verbatim>\<open>'Cressman'\<close> resolves the
  name without a warning, but both raise \<^verbatim>\<open>UnboundLocalError\<close> for \<^verbatim>\<open>max_az_spacing\<close> at
  line 134, before accumulation begins: the loop never receives the tag.
\<close>

theorem resolved_tag_never_reaches_the_loop:
  "map_gates_to_grid plain_externals (OneRadar radar_two_rays) (1, 1, 1) unit_limits
       (defaults\<lparr>kw_weighting_function := code_points ''barnes''\<rparr>)
     = (Inl (UnboundLocalError ''max_az_spacing''), [barnes_deprecation])
   \<and> map_gates_to_grid plain_externals (OneRadar radar_two_rays) (1, 1, 1) unit_limits
       (defaults\<lparr>kw_weighting_function := code_points ''Cressman''\<rparr>)
     = (Inl (UnboundLocalError ''max_az_spacing''), [])"
  by (simp add: call_simps defaults_def radar_two_rays_def plain_externals_def unit_limits_def)

section \<open>Grid starts and steps\<close>

text \<open>
  Claim C8. For a grid shape whose three sizes are at least 1 and any limits,
  \<^verbatim>\<open>_find_grid_params\<close> returns, without raising, the lower limits as the starts and, on
  each axis, the step 0 when the size is 1 and (stop - start) / (size - 1) when the size is
  more than 1.
\<close>

theorem find_grid_params_steps:
  assumes "1 \<le> nz" "1 \<le> ny" "1 \<le> nx"
  shows "find_grid_params (nz, ny, nx) ((z0, z1), (y0, y1), (x0, x1)) =
     Inr ((z0, y0, x0),
          (if nz = 1 then 0 else (z1 - z0) / (real_of_int nz - 1),
           if ny = 1 then 0 else (y1 - y0) / (real_of_int ny - 1),
           if nx = 1 then 0 else (x1 - x0) / (real_of_int nx - 1)))"
  using assms by (simp add: axis_step_def truediv_def)

text \<open>
  The theorem at the shape (1, 3, 5) with the limits (0, 10), (0, 10) and (-4, 4).
\<close>

theorem find_grid_params_steps_witness:
  "find_grid_params (1, 3, 5) ((0, 10), (0, 10), (-4, 4)) = Inr ((0, 0, -4), (0, 5, 2))"
  using find_grid_params_steps[of 1 3 5 0 10 0 10 "-4" 4] by simp

section \<open>The default field list\<close>

text \<open>
  Claim C9. With no field list given and at least one radar, \<^verbatim>\<open>_determine_fields\<close>
  returns, without repetition, exactly the field names present in every radar.
\<close>

theorem default_fields_are_common_fields:
  "radars \<noteq> [] \<Longrightarrow>
     \<exists>fs. determine_fields None radars = Inr fs \<and> distinct fs
        \<and> set fs = (\<Inter>r\<in>set radars. set (keys (radar_fields r)))"
  by (cases radars) (auto simp: set_intersect_all distinct_intersect_all)

text \<open>
  The theorem at a radar with the fields \<^verbatim>\<open>refl\<close> and \<^verbatim>\<open>vel\<close> and a radar with \<^verbatim>\<open>refl\<close>
  only.
\<close>

theorem default_fields_are_common_fields_witness:
  "\<exists>fs. determine_fields None [radar_two_rays, radar_one_ray] = Inr fs \<and> distinct fs
      \<and> set fs = {''refl''}"
  using default_fields_are_common_fields[of "[radar_two_rays, radar_one_ray]"]
  by (simp add: radar_two_rays_def radar_one_ray_def keys_def intersection_def)

section \<open>A single radar\<close>

text \<open>
  Claim C10. A single radar given as the first argument is wrapped in a tuple of one
  element before anything else is done, so the call has the same outcome as the call on
  that tuple.
\<close>

theorem single_radar_is_one_element_tuple:
  "as_tuple (OneRadar r) = as_tuple (RadarSeq [r])
   \<and> map_gates_to_grid ext (OneRadar r) shape glimits kw
       = map_gates_to_grid ext (RadarSeq [r]) shape glimits kw"
  by (simp add: map_gates_to_grid_def as_tuple_def)

end
